theory Spec2Isabelle
  imports Complex_Main
begin

section \<open>The map popup wrapper (DrawPopup)\<close>

text \<open>
  The component wraps a mapbox-gl popup and keeps it pinned to a map coordinate. Numbers
  are an arbitrary type \<open>'n\<close> with the operations the source uses on them (\<open>+\<close>, \<open>-\<close>,
  \<open><\<close>, \<open>0\<close>): nothing is assumed of the arithmetic, so what is proved of the geometry
  holds for JavaScript's doubles as it does for the integers. DOM nodes and map surfaces
  are references, modelled as natural numbers.
\<close>

subsection \<open>Geometry and the anchor descriptor\<close>

datatype js_error = TypeError | LibraryError

record 'n point =
  pt_x :: 'n
  pt_y :: 'n

record 'n rect =
  rect_x :: 'n
  rect_y :: 'n

definition ANCHOR_DELIMITER :: string where
  "ANCHOR_DELIMITER = ''-''"

text \<open>\<open>Array.prototype.join\<close> on an array of strings.\<close>

fun join :: "string \<Rightarrow> string list \<Rightarrow> string" where
  "join d [] = []"
| "join d [s] = s"
| "join d (s # t # ts) = s @ d @ join d (t # ts)"

text \<open>
  Lines 56 to 67 of \<open>_calculateAnchorPosition\<close>: the array \<open>anchorComponents\<close> after the
  two \<open>if\<close>/\<open>else if\<close> statements, each \<open>push\<close> appending at the end.
\<close>

definition anchorComponents ::
  "'n::{plus,minus,zero,ord} point \<Rightarrow> 'n \<Rightarrow> 'n \<Rightarrow> 'n rect \<Rightarrow> 'n \<Rightarrow> 'n \<Rightarrow> string list" where
  "anchorComponents pos width height bounds clientHeight clientWidth =
     (let a0 = [];
          a1 = (if rect_y bounds + pt_y pos + height > clientHeight
                   \<and> rect_y bounds + pt_y pos - height > 0
                then a0 @ [''bottom'']
                else if rect_y bounds + pt_y pos + height < clientHeight
                   \<and> rect_y bounds + pt_y pos - height < 0
                then a0 @ [''top'']
                else a0);
          a2 = (if rect_x bounds + pt_x pos + width > clientWidth
                   \<and> rect_x bounds + pt_x pos - width > 0
                then a1 @ [''right'']
                else if rect_x bounds + pt_x pos + width < clientWidth
                   \<and> rect_x bounds + pt_x pos - width < 0
                then a1 @ [''left'']
                else a1)
      in a2)"

text \<open>The value \<open>_calculateAnchorPosition\<close> returns for given measurements (line 69).\<close>

definition anchorPosition ::
  "'n::{plus,minus,zero,ord} point \<Rightarrow> 'n \<Rightarrow> 'n \<Rightarrow> 'n rect \<Rightarrow> 'n \<Rightarrow> 'n \<Rightarrow> string" where
  "anchorPosition pos width height bounds clientHeight clientWidth =
     join ANCHOR_DELIMITER (anchorComponents pos width height bounds clientHeight clientWidth)"

subsection \<open>State\<close>

text \<open>
  Option values of the popup, and the \<open>location\<close> prop, which the component's
  \<open>propTypes\<close> declare to be a \<open>{lon, lat}\<close> object or an array of numbers (and which may
  be absent).
\<close>

datatype 'n optval = OUndefined | ONull | OBool bool | OStr string | ONum 'n | OArr "'n list"

type_synonym 'n options = "string \<rightharpoonup> 'n optval"

datatype 'n location = LocUndefined | LocNull | LocObject 'n 'n | LocArray "'n list"

text \<open>
  The fields of the \<open>mapboxgl.Popup\<close> object that the wrapper reads or writes. \<open>None\<close>
  stands for \<open>null\<close> and \<open>undefined\<close>.
\<close>

record 'n popup =
  popup_map :: "nat option"
  popup_container :: "nat option"
  popup_content :: "nat option"
  popup_pos :: "'n point option"
  popup_lngLat :: "('n \<times> 'n) option"
  popup_options :: "'n options"

record 'n props =
  props_map :: "nat option"
  props_location :: "'n location"
  props_options :: "'n options option"

text \<open>
  The two listeners the constructor binds once (\<open>this._update\<close>, \<open>this._removeMap\<close>), and
  the calls the wrapper makes on its collaborators: the map surface's \<open>on\<close>/\<open>off\<close>, the
  popup's \<open>_update\<close> and \<open>setLngLat\<close>, the DOM's \<open>removeChild\<close> (parent, child).
\<close>

datatype handler = H_update | H_removeMap

datatype 'n call =
    MapOn nat string handler
  | MapOff nat string handler
  | PopupUpdate
  | PopupSetLngLat "'n location"
  | RemoveChild nat nat

text \<open>
  The component with the part of the world it acts on: \<open>parentNode\<close> is the DOM's parent
  relation, \<open>pending\<close> the number of animation-frame callbacks that \<open>_update\<close> has
  requested and that have not run yet, \<open>calls\<close> the log of the calls made so far.
\<close>

record 'n component =
  props :: "'n props"
  mbPopup :: "'n popup option"
  portalNode :: "nat option"
  parentNode :: "nat \<rightharpoonup> nat"
  pending :: nat
  calls :: "'n call list"

text \<open>What the browser reports when a callback runs: layout, viewport and scroll.\<close>

record 'n browser =
  map_bounds :: "nat \<Rightarrow> 'n rect"
  el_offsetWidth :: "nat \<Rightarrow> 'n"
  el_offsetHeight :: "nat \<Rightarrow> 'n"
  doc_clientHeight :: 'n
  doc_clientWidth :: 'n
  win_scrollX :: 'n
  win_scrollY :: 'n

text \<open>
  mapbox-gl is not part of the repository, so its popup is a parameter: \<open>mb_update\<close> is
  the pixel position \<open>_pos\<close> that \<open>Popup._update()\<close> leaves behind (possibly none),
  \<open>mb_setLngLat\<close> the coordinate and position that \<open>Popup.setLngLat\<close> leaves behind, or
  the error it throws, and \<open>mb_defaults\<close> the options of a new popup. Of the fields above
  the library writes only \<open>_pos\<close> and the coordinate.
\<close>

record 'n mapbox =
  mb_update :: "'n popup \<Rightarrow> 'n point option"
  mb_setLngLat :: "'n location \<Rightarrow> 'n popup \<Rightarrow> js_error + ('n \<times> 'n) \<times> 'n point option"
  mb_defaults :: "'n options"

text \<open>
  A callback either returns, or throws and leaves the state as it was at the throw.
\<close>

type_synonym 'n outcome = "(js_error \<times> 'n component) + 'n component"

fun state_of :: "'n outcome \<Rightarrow> 'n component" where
  "state_of (Inl (e, s)) = s"
| "state_of (Inr s) = s"

subsection \<open>Construction and refs\<close>

definition document_body :: nat where
  "document_body = 0"

text \<open>
  The constructor: \<open>doc\<close> is the document before, \<open>n\<close> the node that
  \<open>document.createElement\<close> returns.
\<close>

definition DrawPopup :: "'n mapbox \<Rightarrow> (nat \<rightharpoonup> nat) \<Rightarrow> nat \<Rightarrow> 'n props \<Rightarrow> 'n component" where
  "DrawPopup lib doc n ps =
     \<lparr> props = ps,
       mbPopup = Some \<lparr> popup_map = None, popup_container = None, popup_content = None,
                        popup_pos = None, popup_lngLat = None,
                        popup_options = mb_defaults lib ++
                          (case props_options ps of None \<Rightarrow> Map.empty | Some opts \<Rightarrow> opts) \<rparr>,
       portalNode = Some n,
       parentNode = doc(n \<mapsto> document_body),
       pending = 0,
       calls = [] \<rparr>"

definition containerRef :: "nat option \<Rightarrow> 'n component \<Rightarrow> js_error + 'n component" where
  "containerRef element s =
     (case mbPopup s of
        None \<Rightarrow> Inl TypeError
      | Some p \<Rightarrow> Inr (s\<lparr>mbPopup := Some (p\<lparr>popup_container := element\<rparr>)\<rparr>))"

definition contentRef :: "nat option \<Rightarrow> 'n component \<Rightarrow> js_error + 'n component" where
  "contentRef element s =
     (case mbPopup s of
        None \<Rightarrow> Inl TypeError
      | Some p \<Rightarrow> Inr (s\<lparr>mbPopup := Some (p\<lparr>popup_content := element\<rparr>)\<rparr>))"

subsection \<open>Reading the geometry\<close>

text \<open>
  \<open>_calculateAnchorPosition\<close>: reading a property of \<open>null\<close> or \<open>undefined\<close> (the popup,
  its container, the map, the position) throws a TypeError.
\<close>

definition calculateAnchorPosition :: "'n::{plus,minus,zero,ord} browser \<Rightarrow> 'n component \<Rightarrow> js_error + string" where
  "calculateAnchorPosition env s =
     (case mbPopup s of
        None \<Rightarrow> Inl TypeError
      | Some p \<Rightarrow>
          (case popup_container p of
             None \<Rightarrow> Inl TypeError
           | Some el \<Rightarrow>
               (case props_map (props s) of
                  None \<Rightarrow> Inl TypeError
                | Some m \<Rightarrow>
                    (case popup_pos p of
                       None \<Rightarrow> Inl TypeError
                     | Some pos \<Rightarrow>
                         Inr (anchorPosition pos (el_offsetWidth env el) (el_offsetHeight env el)
                                (map_bounds env m) (doc_clientHeight env) (doc_clientWidth env))))))"

definition calculateOffset :: "'n::plus browser \<Rightarrow> 'n component \<Rightarrow> js_error + 'n optval" where
  "calculateOffset env s =
     (case props_map (props s) of
        None \<Rightarrow> Inl TypeError
      | Some m \<Rightarrow>
          (let bounds = map_bounds env m
           in Inr (OArr [rect_x bounds + win_scrollX env, rect_y bounds + win_scrollY env])))"

text \<open>
  Array destructuring of \<open>this.props.location || []\<close>: a falsy value gives way to the
  empty array, an array is iterated, and a plain object is not iterable, which throws a
  TypeError. A missing element reads as \<open>undefined\<close> (\<open>None\<close>).
\<close>

fun iterate :: "'n location \<Rightarrow> js_error + 'n list" where
  "iterate LocUndefined = Inr []"
| "iterate LocNull = Inr []"
| "iterate (LocArray xs) = Inr xs"
| "iterate (LocObject lon lat) = Inl TypeError"

definition elementAt :: "'n list \<Rightarrow> nat \<Rightarrow> 'n option" where
  "elementAt xs i = (if i < length xs then Some (xs ! i) else None)"

text \<open>
  \<open>_isLocationChanged\<close>. \<open>getLngLat()\<close> returns the popup's coordinate; \<open>!==\<close> is
  inequality on every number but NaN.
\<close>

definition isLocationChanged :: "'n component \<Rightarrow> js_error + bool" where
  "isLocationChanged s =
     (case mbPopup s of
        None \<Rightarrow> Inl TypeError
      | Some p \<Rightarrow>
          (let (curLng, curLat) =
                 (case popup_lngLat p of
                    None \<Rightarrow> (None, None)
                  | Some (lng, lat) \<Rightarrow> (Some lng, Some lat))
           in case iterate (props_location (props s)) of
                Inl e \<Rightarrow> Inl e
              | Inr xs \<Rightarrow>
                  (let newLng = elementAt xs 0; newLat = elementAt xs 1
                   in Inr (curLng \<noteq> newLng \<or> curLat \<noteq> newLat))))"

subsection \<open>Binding the map surface\<close>

definition removeMap :: "'n component \<Rightarrow> js_error + 'n component" where
  "removeMap s =
     (case mbPopup s of
        None \<Rightarrow> Inl TypeError
      | Some p \<Rightarrow>
          (case popup_map p of
             None \<Rightarrow> Inr s
           | Some m \<Rightarrow>
               Inr (s\<lparr>calls := calls s @ [MapOff m ''move'' H_update, MapOff m ''remove'' H_removeMap],
                      mbPopup := Some (p\<lparr>popup_map := None\<rparr>)\<rparr>)))"

text \<open>\<open>_setMap\<close>; its only caller passes a map surface, never \<open>null\<close>.\<close>

definition setMap :: "nat \<Rightarrow> 'n component \<Rightarrow> js_error + 'n component" where
  "setMap m s =
     (case mbPopup s of
        None \<Rightarrow> Inl TypeError
      | Some p \<Rightarrow>
          if Some m = popup_map p then Inr s
          else (case removeMap s of
                  Inl e \<Rightarrow> Inl e
                | Inr s1 \<Rightarrow>
                    (case mbPopup s1 of
                       None \<Rightarrow> Inl TypeError
                     | Some p1 \<Rightarrow>
                         Inr (s1\<lparr>mbPopup := Some (p1\<lparr>popup_map := Some m\<rparr>),
                                 calls := calls s1 @
                                   [MapOn m ''move'' H_update, MapOn m ''remove'' H_removeMap]\<rparr>))))"

subsection \<open>Synchronizing\<close>

text \<open>The popup's own \<open>_update()\<close> and \<open>setLngLat(location)\<close>, as the wrapper calls them.\<close>

definition popup_update :: "'n mapbox \<Rightarrow> 'n component \<Rightarrow> js_error + 'n component" where
  "popup_update lib s =
     (case mbPopup s of
        None \<Rightarrow> Inl TypeError
      | Some p \<Rightarrow>
          Inr (s\<lparr>mbPopup := Some (p\<lparr>popup_pos := mb_update lib p\<rparr>),
                 calls := calls s @ [PopupUpdate]\<rparr>))"

definition popup_setLngLat :: "'n mapbox \<Rightarrow> 'n location \<Rightarrow> 'n component \<Rightarrow> 'n outcome" where
  "popup_setLngLat lib location s =
     (case mbPopup s of
        None \<Rightarrow> Inl (TypeError, s)
      | Some p \<Rightarrow>
          (let s1 = s\<lparr>calls := calls s @ [PopupSetLngLat location]\<rparr>
           in case mb_setLngLat lib location p of
                Inl e \<Rightarrow> Inl (e, s1)
              | Inr (lngLat, pos) \<Rightarrow>
                  Inr (s1\<lparr>mbPopup := Some (p\<lparr>popup_lngLat := Some lngLat, popup_pos := pos\<rparr>)\<rparr>)))"

text \<open>The assignment \<open>this._mbPopup.options.anchor = anchor\<close>.\<close>

definition assign_anchor :: "string \<Rightarrow> 'n component \<Rightarrow> js_error + 'n component" where
  "assign_anchor anchor s =
     (case mbPopup s of
        None \<Rightarrow> Inl TypeError
      | Some p \<Rightarrow>
          Inr (s\<lparr>mbPopup := Some (p\<lparr>popup_options := (popup_options p)(''anchor'' \<mapsto> OStr anchor)\<rparr>)\<rparr>))"

text \<open>
  The object literal of lines 112 to 117: the popup's options, then \<open>offset\<close>, then
  \<open>anchor: null\<close>, then the caller's options spread over them.
\<close>

definition merge_options :: "'n options \<Rightarrow> 'n optval \<Rightarrow> 'n options \<Rightarrow> 'n options" where
  "merge_options current offset options =
     current(''offset'' \<mapsto> offset, ''anchor'' \<mapsto> ONull) ++ options"

text \<open>
  The arrow function that \<open>_update\<close> hands to \<open>requestAnimationFrame\<close>. The defaults of
  the destructuring apply to \<open>undefined\<close> only; spreading \<open>null\<close> adds nothing. The flag
  \<open>updated\<close> starts \<open>false\<close> and is set only where the location has changed, so it has
  the value of \<open>_isLocationChanged()\<close> when it is read.
\<close>

definition update_callback ::
  "'n::{plus,minus,zero,ord} mapbox \<Rightarrow> 'n browser \<Rightarrow> 'n component \<Rightarrow> 'n outcome" where
  "update_callback lib env s =
     (let options = (case props_options (props s) of None \<Rightarrow> Map.empty | Some opts \<Rightarrow> opts);
          location = (case props_location (props s) of LocUndefined \<Rightarrow> LocArray [0, 0] | l \<Rightarrow> l)
      in case props_map (props s) of
           None \<Rightarrow> Inr s
         | Some m \<Rightarrow>
         (case mbPopup s of
            None \<Rightarrow> Inr s
          | Some p \<Rightarrow>
          if popup_container p = None \<or> popup_content p = None then Inr s
          else
          (case calculateOffset env s of
             Inl e \<Rightarrow> Inl (e, s)
           | Inr offset \<Rightarrow>
           (let s1 = s\<lparr>mbPopup :=
                        Some (p\<lparr>popup_options := merge_options (popup_options p) offset options\<rparr>)\<rparr>
            in case setMap m s1 of
                 Inl e \<Rightarrow> Inl (e, s1)
               | Inr s2 \<Rightarrow>
               (case isLocationChanged s2 of
                  Inl e \<Rightarrow> Inl (e, s2)
                | Inr changed \<Rightarrow>
                (case (if changed then popup_setLngLat lib location s2 else Inr s2) of
                   Inl thrown \<Rightarrow> Inl thrown
                 | Inr s3 \<Rightarrow>
                 (let updated = changed
                  in case (if \<not> updated then popup_update lib s3 else Inr s3) of
                       Inl e \<Rightarrow> Inl (e, s3)
                     | Inr s4 \<Rightarrow>
                     (case calculateAnchorPosition env s4 of
                        Inl e \<Rightarrow> Inl (e, s4)
                      | Inr anchor \<Rightarrow>
                      (case assign_anchor anchor s4 of
                         Inl e \<Rightarrow> Inl (e, s4)
                       | Inr s5 \<Rightarrow>
                       (case popup_update lib s5 of
                          Inl e \<Rightarrow> Inl (e, s5)
                        | Inr s6 \<Rightarrow> Inr s6))))))))))"

text \<open>\<open>_update\<close> itself only requests an animation frame for the callback.\<close>

definition update :: "'n component \<Rightarrow> 'n component" where
  "update s = s\<lparr>pending := pending s + 1\<rparr>"

definition componentDidMount :: "'n component \<Rightarrow> 'n component" where
  "componentDidMount s = update s"

definition componentDidUpdate :: "'n component \<Rightarrow> 'n component" where
  "componentDidUpdate s = update s"

text \<open>
  An animation frame: the browser takes the callbacks requested so far and runs them in
  turn; a callback that throws is reported and the next one runs.
\<close>

fun run_callbacks ::
  "'n::{plus,minus,zero,ord} mapbox \<Rightarrow> 'n browser \<Rightarrow> nat \<Rightarrow> 'n component
     \<Rightarrow> 'n component \<times> js_error list" where
  "run_callbacks lib env 0 s = (s, [])"
| "run_callbacks lib env (Suc k) s =
     (case update_callback lib env s of
        Inr s' \<Rightarrow> run_callbacks lib env k s'
      | Inl (e, s') \<Rightarrow> (let (s'', es) = run_callbacks lib env k s' in (s'', e # es)))"

definition animation_frame ::
  "'n::{plus,minus,zero,ord} mapbox \<Rightarrow> 'n browser \<Rightarrow> 'n component \<Rightarrow> 'n component \<times> js_error list" where
  "animation_frame lib env s = run_callbacks lib env (pending s) (s\<lparr>pending := 0\<rparr>)"

subsection \<open>Teardown\<close>

definition remove_popup :: "'n component \<Rightarrow> js_error + 'n component" where
  "remove_popup s =
     (case (case mbPopup s of
              None \<Rightarrow> Inr s
            | Some p \<Rightarrow>
                removeMap (s\<lparr>mbPopup := Some (p\<lparr>popup_container := None, popup_content := None\<rparr>)\<rparr>)) of
        Inl e \<Rightarrow> Inl e
      | Inr s1 \<Rightarrow>
          (case portalNode s1 of
             None \<Rightarrow> Inr s1
           | Some n \<Rightarrow>
               (case parentNode s1 n of
                  None \<Rightarrow> Inr s1
                | Some parent \<Rightarrow>
                    Inr (s1\<lparr>parentNode := (parentNode s1)(n := None),
                            calls := calls s1 @ [RemoveChild parent n],
                            portalNode := None\<rparr>))))"

definition componentWillUnmount :: "'n component \<Rightarrow> js_error + 'n component" where
  "componentWillUnmount s = remove_popup s"

subsection \<open>Observing the subscriptions\<close>

text \<open>
  The listeners that the logged \<open>on\<close> and \<open>off\<close> calls leave on the map surfaces: \<open>on\<close>
  adds a listener, \<open>off\<close> takes it away.
\<close>

type_synonym listener = "nat \<times> string \<times> handler"

fun apply_call :: "'n call \<Rightarrow> listener list \<Rightarrow> listener list" where
  "apply_call (MapOn m ev h) ls = ls @ [(m, ev, h)]"
| "apply_call (MapOff m ev h) ls = remove1 (m, ev, h) ls"
| "apply_call c ls = ls"

fun listeners_after :: "'n call list \<Rightarrow> listener list \<Rightarrow> listener list" where
  "listeners_after [] ls = ls"
| "listeners_after (c # cs) ls = listeners_after cs (apply_call c ls)"

definition listeners :: "'n component \<Rightarrow> listener list" where
  "listeners s = listeners_after (calls s) []"

text \<open>At most one surface holds listeners, now and after each further call.\<close>

definition one_surface :: "listener list \<Rightarrow> bool" where
  "one_surface ls = (length (remdups (map fst ls)) \<le> 1)"

fun never_two_surfaces :: "'n call list \<Rightarrow> listener list \<Rightarrow> bool" where
  "never_two_surfaces [] ls = one_surface ls"
| "never_two_surfaces (c # cs) ls = (one_surface ls \<and> never_two_surfaces cs (apply_call c ls))"

definition move_subscriptions :: "'n component \<Rightarrow> nat" where
  "move_subscriptions s = length (filter (\<lambda>(m, ev, h). ev = ''move'') (listeners s))"

definition bound_map :: "'n component \<Rightarrow> nat option" where
  "bound_map s = (case mbPopup s of None \<Rightarrow> None | Some p \<Rightarrow> popup_map p)"

definition subscribe :: "nat \<Rightarrow> 'n call list" where
  "subscribe m = [MapOn m ''move'' H_update, MapOn m ''remove'' H_removeMap]"

definition unsubscribe :: "nat \<Rightarrow> 'n call list" where
  "unsubscribe m = [MapOff m ''move'' H_update, MapOff m ''remove'' H_removeMap]"

definition subscriptions_of :: "nat \<Rightarrow> listener list" where
  "subscriptions_of m = [(m, ''move'', H_update), (m, ''remove'', H_removeMap)]"

text \<open>
  The invariant of the binding: the popup exists, the listeners left by the calls so far
  are exactly those of the bound surface (none when no surface is bound), and no two
  surfaces ever held listeners at once.
\<close>

definition well_bound :: "'n component \<Rightarrow> bool" where
  "well_bound s =
     (case mbPopup s of
        None \<Rightarrow> False
      | Some p \<Rightarrow>
          listeners s = (case popup_map p of None \<Rightarrow> [] | Some m \<Rightarrow> subscriptions_of m)
          \<and> never_two_surfaces (calls s) [])"

text \<open>Successive \<open>_setMap\<close> calls, one per surface of the list.\<close>

fun bind_all :: "nat list \<Rightarrow> 'n component \<Rightarrow> js_error + 'n component" where
  "bind_all [] s = Inr s"
| "bind_all (m # ms) s = (case setMap m s of Inl e \<Rightarrow> Inl e | Inr s' \<Rightarrow> bind_all ms s')"


definition removals :: "'n call list \<Rightarrow> nat" where
  "removals cs = length (filter (\<lambda>c. case c of RemoveChild parent child \<Rightarrow> True | _ \<Rightarrow> False) cs)"

definition portal_attached :: "'n component \<Rightarrow> bool" where
  "portal_attached s = (case portalNode s of None \<Rightarrow> False | Some n \<Rightarrow> parentNode s n \<noteq> None)"


subsection \<open>A mounted popup to run the model on\<close>

text \<open>
  A stand-in for mapbox-gl over the integers, in which the pixel position of a popup is
  its coordinate and \<open>setLngLat\<close> accepts a two-element array only; a viewport of 800 by
  400 with the map surface at its origin, and a popup of 100 by 50; a component mounted
  on map surface 1 with portal node 7, container 8 and content 9.
\<close>

definition example_lib :: "int mapbox" where
  "example_lib =
     \<lparr> mb_update = (\<lambda>p. case popup_lngLat p of
                            None \<Rightarrow> None
                          | Some (lng, lat) \<Rightarrow> Some \<lparr>pt_x = lng, pt_y = lat\<rparr>),
       mb_setLngLat = (\<lambda>l p. case l of
                            LocArray [lng, lat] \<Rightarrow> Inr ((lng, lat), Some \<lparr>pt_x = lng, pt_y = lat\<rparr>)
                          | _ \<Rightarrow> Inl LibraryError),
       mb_defaults = Map.empty \<rparr>"

definition example_env :: "int browser" where
  "example_env =
     \<lparr> map_bounds = (\<lambda>m. \<lparr>rect_x = 0, rect_y = 0\<rparr>),
       el_offsetWidth = (\<lambda>el. 100),
       el_offsetHeight = (\<lambda>el. 50),
       doc_clientHeight = 400,
       doc_clientWidth = 800,
       win_scrollX = 5,
       win_scrollY = 5 \<rparr>"

definition example_popup :: "int location \<Rightarrow> int component" where
  "example_popup l =
     (let s = DrawPopup example_lib Map.empty 7
                \<lparr>props_map = Some 1, props_location = l, props_options = None\<rparr>
      in case containerRef (Some 8) s of
           Inl e \<Rightarrow> s
         | Inr s1 \<Rightarrow> (case contentRef (Some 9) s1 of Inl e \<Rightarrow> s1 | Inr s2 \<Rightarrow> s2))"



section \<open>Table state in local storage\<close>

text \<open>
  JavaScript values as the storage holds them. \<open>Num\<close> is a finite number, \<open>NaN\<close> is kept
  apart because it is falsy, and an array is an object keyed by its indices.
\<close>

datatype jsval = Undefined | Null | Bool bool | Num real | NaN | Str string
  | Obj "string \<rightharpoonup> jsval"

fun truthy :: "jsval \<Rightarrow> bool" where
  "truthy Undefined = False"
| "truthy Null = False"
| "truthy (Bool b) = b"
| "truthy (Num r) = (r \<noteq> 0)"
| "truthy NaN = False"
| "truthy (Str s) = (s \<noteq> [])"
| "truthy (Obj m) = True"

text \<open>The operator \<open>||\<close>.\<close>

definition or_else :: "jsval \<Rightarrow> jsval \<Rightarrow> jsval" where
  "or_else a b = (if truthy a then a else b)"

text \<open>
  A property read. The properties that a primitive or a prototype provides (the length
  of a string, the methods of \<open>Object.prototype\<close>) are left out: none of them has one of
  the field names read below.
\<close>

fun property :: "jsval \<Rightarrow> string \<Rightarrow> jsval" where
  "property (Obj m) k = (case m k of None \<Rightarrow> Undefined | Some v \<Rightarrow> v)"
| "property v k = Undefined"

fun nullish :: "jsval \<Rightarrow> bool" where
  "nullish Null = True"
| "nullish Undefined = True"
| "nullish v = False"

text \<open>
  lodash is not part of the repository. \<open>lodash_get\<close> and \<open>lodash_set\<close> are \<open>_.get\<close> and
  \<open>_.set\<close> of lodash 4.17 on the two-key array path \<open>[key, field]\<close>: \<open>get\<close> walks the path
  and stops at \<open>null\<close> or \<open>undefined\<close>; \<open>set\<close> leaves a value that is not an object as it
  is, refuses the keys \<open>__proto__\<close>, \<open>constructor\<close> and \<open>prototype\<close>, and puts a fresh
  object where the path meets no object.
\<close>

definition lodash_get :: "jsval \<Rightarrow> string \<times> string \<Rightarrow> jsval" where
  "lodash_get object path =
     (let (key, field) = path
      in if nullish object then Undefined
         else (let nested = property object key
               in if nullish nested then Undefined else property nested field))"

definition unsafe_keys :: "string set" where
  "unsafe_keys = {''__proto__'', ''constructor'', ''prototype''}"

definition lodash_set :: "jsval \<Rightarrow> string \<times> string \<Rightarrow> jsval \<Rightarrow> jsval" where
  "lodash_set object path v =
     (let (key, field) = path
      in case object of
           Obj m \<Rightarrow>
             if key \<in> unsafe_keys then object
             else (let nested = (case property object key of Obj n \<Rightarrow> n | _ \<Rightarrow> Map.empty)
                   in if field \<in> unsafe_keys then Obj (m(key \<mapsto> Obj nested))
                      else Obj (m(key \<mapsto> Obj (nested(field \<mapsto> v)))))
         | _ \<Rightarrow> object)"

text \<open>
  The storage is a key-value map; a key it does not hold reads as \<open>null\<close>.
  \<open>STORAGE_KEY\<close> is imported from a module that is not among the sources, so it is a
  parameter.
\<close>

type_synonym storage = "string \<rightharpoonup> jsval"

definition storage_get :: "storage \<Rightarrow> string \<Rightarrow> jsval" where
  "storage_get storage k = (case storage k of None \<Rightarrow> Null | Some v \<Rightarrow> v)"

record table_state =
  filterText :: jsval
  pageIndex :: jsval
  sortKey :: jsval
  sortOrder :: jsval

definition tableStorageGetter :: "string \<Rightarrow> string \<Rightarrow> storage \<Rightarrow> table_state" where
  "tableStorageGetter STORAGE_KEY keyPrefix storage =
     (let localStorageData = or_else (storage_get storage STORAGE_KEY) (Obj Map.empty)
      in \<lparr> filterText = lodash_get localStorageData (keyPrefix, ''filterText''),
           pageIndex = lodash_get localStorageData (keyPrefix, ''pageIndex''),
           sortKey = lodash_get localStorageData (keyPrefix, ''sortKey''),
           sortOrder = lodash_get localStorageData (keyPrefix, ''sortOrder'') \<rparr>)"

text \<open>The setter returns the new storage and the object it wrote.\<close>

definition tableStorageSetter ::
  "string \<Rightarrow> string \<Rightarrow> storage \<Rightarrow> table_state \<Rightarrow> storage \<times> jsval" where
  "tableStorageSetter STORAGE_KEY keyPrefix storage ts =
     (let d0 = or_else (storage_get storage STORAGE_KEY) (Obj Map.empty);
          d1 = lodash_set d0 (keyPrefix, ''filterText'') (or_else (filterText ts) Undefined);
          d2 = lodash_set d1 (keyPrefix, ''pageIndex'') (or_else (pageIndex ts) Undefined);
          d3 = lodash_set d2 (keyPrefix, ''sortKey'') (or_else (sortKey ts) Undefined);
          d4 = lodash_set d3 (keyPrefix, ''sortOrder'') (or_else (sortOrder ts) Undefined)
      in (storage(STORAGE_KEY \<mapsto> d4), d4))"

text \<open>
  The content under \<open>STORAGE_KEY\<close> that the setter can write into: an object, or a falsy
  value (which \<open>|| {}\<close> replaces).
\<close>

definition plain_or_absent :: "jsval \<Rightarrow> bool" where
  "plain_or_absent v = (case v of Obj m \<Rightarrow> True | _ \<Rightarrow> \<not> truthy v)"

definition example_table_state :: table_state where
  "example_table_state =
     \<lparr> filterText = Str ''cpu'', pageIndex = Num 0, sortKey = Str ''name'', sortOrder = Null \<rparr>"

section \<open>Properties of the popup wrapper\<close>

subsection \<open>The anchor descriptor\<close>

lemma anchorComponents_split:
  fixes pos :: "'n::{plus,minus,zero,ord} point"
  shows "anchorComponents pos width height bounds clientHeight clientWidth =
     (if rect_y bounds + pt_y pos + height > clientHeight \<and> rect_y bounds + pt_y pos - height > 0
      then [''bottom'']
      else if rect_y bounds + pt_y pos + height < clientHeight \<and> rect_y bounds + pt_y pos - height < 0
      then [''top''] else [])
     @ (if rect_x bounds + pt_x pos + width > clientWidth \<and> rect_x bounds + pt_x pos - width > 0
        then [''right'']
        else if rect_x bounds + pt_x pos + width < clientWidth \<and> rect_x bounds + pt_x pos - width < 0
        then [''left''] else [])"
  by (simp add: anchorComponents_def Let_def)

text \<open>
  C1: \<open>_calculateAnchorPosition\<close> appends \<open>bottom\<close> exactly when the popup placed downward
  passes the viewport's bottom and placed upward stays below its top; otherwise \<open>top\<close>
  exactly when downward placement stays above the bottom and upward placement passes the
  top; no vertical tag otherwise. \<open>right\<close> and \<open>left\<close> follow the same comparisons against
  the viewport's width. No other tag is ever appended.
\<close>

theorem anchor_tags:
  fixes pos :: "'n::{plus,minus,zero,ord} point"
  shows "(''bottom'' \<in> set (anchorComponents pos width height bounds clientHeight clientWidth))
           = (rect_y bounds + pt_y pos + height > clientHeight \<and> rect_y bounds + pt_y pos - height > 0)
       \<and> (''top'' \<in> set (anchorComponents pos width height bounds clientHeight clientWidth))
           = (\<not> (rect_y bounds + pt_y pos + height > clientHeight \<and> rect_y bounds + pt_y pos - height > 0)
              \<and> rect_y bounds + pt_y pos + height < clientHeight \<and> rect_y bounds + pt_y pos - height < 0)
       \<and> (''right'' \<in> set (anchorComponents pos width height bounds clientHeight clientWidth))
           = (rect_x bounds + pt_x pos + width > clientWidth \<and> rect_x bounds + pt_x pos - width > 0)
       \<and> (''left'' \<in> set (anchorComponents pos width height bounds clientHeight clientWidth))
           = (\<not> (rect_x bounds + pt_x pos + width > clientWidth \<and> rect_x bounds + pt_x pos - width > 0)
              \<and> rect_x bounds + pt_x pos + width < clientWidth \<and> rect_x bounds + pt_x pos - width < 0)
       \<and> set (anchorComponents pos width height bounds clientHeight clientWidth)
           \<subseteq> {''bottom'', ''top'', ''right'', ''left''}"
  unfolding anchorComponents_split by auto

theorem anchor_tags_witness:
  "''bottom'' \<in> set (anchorComponents \<lparr>pt_x = 200, pt_y = 380\<rparr> (100::int) 50 \<lparr>rect_x = 0, rect_y = 0\<rparr> 400 800)
   \<and> ''top'' \<notin> set (anchorComponents \<lparr>pt_x = 200, pt_y = 380\<rparr> (100::int) 50 \<lparr>rect_x = 0, rect_y = 0\<rparr> 400 800)
   \<and> ''right'' \<notin> set (anchorComponents \<lparr>pt_x = 200, pt_y = 380\<rparr> (100::int) 50 \<lparr>rect_x = 0, rect_y = 0\<rparr> 400 800)
   \<and> ''left'' \<notin> set (anchorComponents \<lparr>pt_x = 200, pt_y = 380\<rparr> (100::int) 50 \<lparr>rect_x = 0, rect_y = 0\<rparr> 400 800)"
  using anchor_tags [where pos = "\<lparr>pt_x = 200, pt_y = 380\<rparr>" and width = "100::int" and height = 50
      and bounds = "\<lparr>rect_x = 0, rect_y = 0\<rparr>" and clientHeight = 400 and clientWidth = 800]
  by simp

text \<open>
  C2: the string that \<open>_calculateAnchorPosition\<close> returns is one of nine values: at most
  one vertical tag, then at most one horizontal tag, joined by a single \<open>-\<close>, and the
  empty string when there is no tag.
\<close>

theorem anchor_nine:
  fixes pos :: "'n::{plus,minus,zero,ord} point"
  shows "anchorPosition pos width height bounds clientHeight clientWidth
      \<in> {'''', ''top'', ''bottom'', ''left'', ''right'',
          ''top-left'', ''top-right'', ''bottom-left'', ''bottom-right''}
    \<and> (\<exists>v h. v \<in> {[], [''top''], [''bottom'']} \<and> h \<in> {[], [''left''], [''right'']}
          \<and> anchorComponents pos width height bounds clientHeight clientWidth = v @ h
          \<and> anchorPosition pos width height bounds clientHeight clientWidth = join ''-'' (v @ h))"
proof -
  define v where "v = (if rect_y bounds + pt_y pos + height > clientHeight \<and> rect_y bounds + pt_y pos - height > 0
      then [''bottom'']
      else if rect_y bounds + pt_y pos + height < clientHeight \<and> rect_y bounds + pt_y pos - height < 0
      then [''top''] else [])"
  define h where "h = (if rect_x bounds + pt_x pos + width > clientWidth \<and> rect_x bounds + pt_x pos - width > 0
        then [''right'']
        else if rect_x bounds + pt_x pos + width < clientWidth \<and> rect_x bounds + pt_x pos - width < 0
        then [''left''] else [])"
  have vh: "anchorComponents pos width height bounds clientHeight clientWidth = v @ h"
    unfolding v_def h_def by (rule anchorComponents_split)
  have v: "v = [] \<or> v = [''top''] \<or> v = [''bottom'']"
    unfolding v_def by simp
  have h: "h = [] \<or> h = [''left''] \<or> h = [''right'']"
    unfolding h_def by simp
  have nine: "join ''-'' (v @ h) \<in> {'''', ''top'', ''bottom'', ''left'', ''right'',
          ''top-left'', ''top-right'', ''bottom-left'', ''bottom-right''}"
    using v h by auto
  show ?thesis
    unfolding anchorPosition_def ANCHOR_DELIMITER_def vh using v h nine by auto
qed

theorem anchor_nine_witness:
  "anchorPosition \<lparr>pt_x = 50, pt_y = 20\<rparr> (100::int) 50 \<lparr>rect_x = 0, rect_y = 0\<rparr> 400 800
     \<in> {'''', ''top'', ''bottom'', ''left'', ''right'',
          ''top-left'', ''top-right'', ''bottom-left'', ''bottom-right''}
   \<and> anchorPosition \<lparr>pt_x = 50, pt_y = 20\<rparr> (100::int) 50 \<lparr>rect_x = 0, rect_y = 0\<rparr> 400 800 = ''top-left''"
  using anchor_nine [where pos = "\<lparr>pt_x = 50, pt_y = 20\<rparr>" and width = "100::int" and height = 50
      and bounds = "\<lparr>rect_x = 0, rect_y = 0\<rparr>" and clientHeight = 400 and clientWidth = 800]
  by (simp add: anchorPosition_def anchorComponents_def ANCHOR_DELIMITER_def)

text \<open>Each of the nine values is returned for some position of a 100 by 50 popup.\<close>

lemma anchorPosition_values_attained:
  "anchorPosition \<lparr>pt_x = 400, pt_y = 200\<rparr> (100::int) 50 \<lparr>rect_x = 0, rect_y = 0\<rparr> 400 800 = ''''"
  "anchorPosition \<lparr>pt_x = 400, pt_y = 20\<rparr> (100::int) 50 \<lparr>rect_x = 0, rect_y = 0\<rparr> 400 800 = ''top''"
  "anchorPosition \<lparr>pt_x = 400, pt_y = 380\<rparr> (100::int) 50 \<lparr>rect_x = 0, rect_y = 0\<rparr> 400 800 = ''bottom''"
  "anchorPosition \<lparr>pt_x = 50, pt_y = 200\<rparr> (100::int) 50 \<lparr>rect_x = 0, rect_y = 0\<rparr> 400 800 = ''left''"
  "anchorPosition \<lparr>pt_x = 750, pt_y = 200\<rparr> (100::int) 50 \<lparr>rect_x = 0, rect_y = 0\<rparr> 400 800 = ''right''"
  "anchorPosition \<lparr>pt_x = 50, pt_y = 20\<rparr> (100::int) 50 \<lparr>rect_x = 0, rect_y = 0\<rparr> 400 800 = ''top-left''"
  "anchorPosition \<lparr>pt_x = 750, pt_y = 20\<rparr> (100::int) 50 \<lparr>rect_x = 0, rect_y = 0\<rparr> 400 800 = ''top-right''"
  "anchorPosition \<lparr>pt_x = 50, pt_y = 380\<rparr> (100::int) 50 \<lparr>rect_x = 0, rect_y = 0\<rparr> 400 800 = ''bottom-left''"
  "anchorPosition \<lparr>pt_x = 750, pt_y = 380\<rparr> (100::int) 50 \<lparr>rect_x = 0, rect_y = 0\<rparr> 400 800 = ''bottom-right''"
  by (simp_all add: anchorPosition_def anchorComponents_def ANCHOR_DELIMITER_def)

subsection \<open>Binding the map surface\<close>

lemma example_popup_simp:
  "example_popup l =
     \<lparr> props = \<lparr>props_map = Some 1, props_location = l, props_options = None\<rparr>,
       mbPopup = Some \<lparr> popup_map = None, popup_container = Some 8, popup_content = Some 9,
                        popup_pos = None, popup_lngLat = None, popup_options = Map.empty \<rparr>,
       portalNode = Some 7,
       parentNode = [7 \<mapsto> document_body],
       pending = 0,
       calls = [] \<rparr>"
  by (simp add: example_popup_def DrawPopup_def containerRef_def contentRef_def example_lib_def)

lemma listeners_after_append:
  "listeners_after (cs @ ds) ls = listeners_after ds (listeners_after cs ls)"
  by (induction cs arbitrary: ls) simp_all

lemma never_two_surfaces_append:
  "never_two_surfaces (cs @ ds) ls
     = (never_two_surfaces cs ls \<and> never_two_surfaces ds (listeners_after cs ls))"
proof (induction cs arbitrary: ls)
  case Nil
  show ?case by (cases ds) auto
next
  case (Cons c cs)
  then show ?case by auto
qed

lemma well_bound_DrawPopup: "well_bound (DrawPopup lib doc n ps)"
  by (simp add: well_bound_def DrawPopup_def listeners_def one_surface_def)

lemma removeMap_well_bound:
  assumes "well_bound s"
  shows "\<exists>s'. removeMap s = Inr s' \<and> well_bound s' \<and> bound_map s' = None
           \<and> calls s' = calls s @ (case bound_map s of None \<Rightarrow> [] | Some old \<Rightarrow> unsubscribe old)
           \<and> props s' = props s \<and> portalNode s' = portalNode s \<and> parentNode s' = parentNode s
           \<and> pending s' = pending s"
proof -
  from assms obtain p where p: "mbPopup s = Some p"
    by (auto simp: well_bound_def split: option.splits)
  show ?thesis
  proof (cases "popup_map p")
    case None
    with p assms show ?thesis
      by (simp add: removeMap_def bound_map_def)
  next
    case (Some old)
    with p assms have ls: "listeners_after (calls s) [] = subscriptions_of old"
      and nt: "never_two_surfaces (calls s) []"
      by (simp_all add: well_bound_def listeners_def)
    show ?thesis using p Some ls nt
      by (simp add: removeMap_def bound_map_def well_bound_def listeners_def unsubscribe_def
          listeners_after_append never_two_surfaces_append subscriptions_of_def one_surface_def)
  qed
qed

lemma setMap_well_bound:
  assumes "well_bound s"
  shows "\<exists>s'. setMap m s = Inr s' \<and> well_bound s' \<and> bound_map s' = Some m
           \<and> listeners s' = subscriptions_of m
           \<and> calls s' = calls s @
                (case bound_map s of
                   None \<Rightarrow> subscribe m
                 | Some old \<Rightarrow> if old = m then [] else unsubscribe old @ subscribe m)"
proof -
  from assms obtain p where p: "mbPopup s = Some p"
    by (auto simp: well_bound_def split: option.splits)
  show ?thesis
  proof (cases "Some m = popup_map p")
    case True
    then have pm: "popup_map p = Some m" by simp
    with p assms show ?thesis
      by (simp add: setMap_def bound_map_def well_bound_def)
  next
    case False
    from removeMap_well_bound [OF assms] obtain s1 where
      r: "removeMap s = Inr s1" and wb: "well_bound s1" and bm: "bound_map s1 = None"
      and cs: "calls s1 = calls s @ (case bound_map s of None \<Rightarrow> [] | Some old \<Rightarrow> unsubscribe old)"
      by blast
    from wb obtain p1 where p1: "mbPopup s1 = Some p1"
      by (auto simp: well_bound_def split: option.splits)
    from wb p1 bm have ls: "listeners_after (calls s1) [] = []" and nt: "never_two_surfaces (calls s1) []"
      by (simp_all add: well_bound_def listeners_def bound_map_def)
    show ?thesis using p False r p1 ls nt cs
      by (auto simp: setMap_def bound_map_def well_bound_def listeners_def subscribe_def
          listeners_after_append never_two_surfaces_append subscriptions_of_def one_surface_def
          split: option.splits)
  qed
qed

lemma bind_all_well_bound:
  assumes "well_bound s0"
  shows "\<exists>s. bind_all ms s0 = Inr s \<and> well_bound s"
  using assms
proof (induction ms arbitrary: s0)
  case Nil
  then show ?case by simp
next
  case (Cons m ms)
  from setMap_well_bound [OF Cons.prems, of m] obtain s1 where
    "setMap m s0 = Inr s1" "well_bound s1" by blast
  with Cons.IH [of s1] show ?case by simp
qed

text \<open>
  C5: from a component whose binding is in order (as the constructor leaves it), after any
  sequence of \<open>_setMap\<close> calls a further \<open>_setMap m\<close> returns with surface \<open>m\<close> bound and
  with exactly the \<open>move\<close> and \<open>remove\<close> listeners of \<open>m\<close> in place, one \<open>move\<close>
  subscription in all. When another surface was bound, its two listeners are taken off
  first and those of \<open>m\<close> are put on after; at no moment do two surfaces hold listeners.
  Binding the surface that is bound already changes nothing.
\<close>

theorem setMap_one_surface:
  assumes "well_bound s0"
  shows "\<exists>s s'. bind_all ms s0 = Inr s \<and> setMap m s = Inr s'
     \<and> bound_map s' = Some m
     \<and> listeners s' = subscriptions_of m
     \<and> move_subscriptions s' = 1
     \<and> never_two_surfaces (calls s') []
     \<and> calls s' = calls s @
          (case bound_map s of
             None \<Rightarrow> subscribe m
           | Some old \<Rightarrow> if old = m then [] else unsubscribe old @ subscribe m)
     \<and> setMap m s' = Inr s'"
proof -
  from bind_all_well_bound [OF assms, of ms] obtain s where
    s: "bind_all ms s0 = Inr s" and wb: "well_bound s" by blast
  from setMap_well_bound [OF wb, of m] obtain s' where
    s': "setMap m s = Inr s'" and wb': "well_bound s'" and bm: "bound_map s' = Some m"
    and ls: "listeners s' = subscriptions_of m"
    and cs: "calls s' = calls s @
          (case bound_map s of
             None \<Rightarrow> subscribe m
           | Some old \<Rightarrow> if old = m then [] else unsubscribe old @ subscribe m)"
    by blast
  have mv: "move_subscriptions s' = 1"
    by (simp add: move_subscriptions_def ls subscriptions_of_def)
  have nt: "never_two_surfaces (calls s') []"
    using wb' by (auto simp: well_bound_def split: option.splits)
  have again: "setMap m s' = Inr s'"
    using wb' bm by (auto simp: setMap_def bound_map_def well_bound_def split: option.splits)
  show ?thesis using s s' bm ls mv nt cs again by blast
qed

theorem setMap_one_surface_witness:
  "well_bound (example_popup (LocArray [200, 380]))
   \<and> (\<exists>s s'. bind_all [1] (example_popup (LocArray [200, 380])) = Inr s
         \<and> setMap 2 s = Inr s'
         \<and> bound_map s' = Some 2
         \<and> listeners s' = [(2, ''move'', H_update), (2, ''remove'', H_removeMap)]
         \<and> move_subscriptions s' = 1
         \<and> calls s' = [MapOn 1 ''move'' H_update, MapOn 1 ''remove'' H_removeMap,
                       MapOff 1 ''move'' H_update, MapOff 1 ''remove'' H_removeMap,
                       MapOn 2 ''move'' H_update, MapOn 2 ''remove'' H_removeMap])"
proof -
  have wb: "well_bound (example_popup (LocArray [200, 380]))"
    by (simp add: example_popup_simp well_bound_def listeners_def one_surface_def)
  from setMap_one_surface [OF wb, of "[1]" 2] obtain s s' where
    s: "bind_all [1] (example_popup (LocArray [200, 380])) = Inr s"
    and s': "setMap 2 s = Inr s'" and bm: "bound_map s' = Some 2"
    and ls: "listeners s' = subscriptions_of 2" and mv: "move_subscriptions s' = 1"
    and cs: "calls s' = calls s @
          (case bound_map s of
             None \<Rightarrow> subscribe 2
           | Some old \<Rightarrow> if old = 2 then [] else unsubscribe old @ subscribe 2)"
    by blast
  from s have "calls s = [MapOn 1 ''move'' H_update, MapOn 1 ''remove'' H_removeMap]"
    and "bound_map s = Some 1"
    by (auto simp: example_popup_simp setMap_def removeMap_def bound_map_def)
  with cs have "calls s' = [MapOn 1 ''move'' H_update, MapOn 1 ''remove'' H_removeMap,
                       MapOff 1 ''move'' H_update, MapOff 1 ''remove'' H_removeMap,
                       MapOn 2 ''move'' H_update, MapOn 2 ''remove'' H_removeMap]"
    by (simp add: subscribe_def unsubscribe_def)
  with wb s s' bm ls mv show ?thesis
    by (simp add: subscriptions_of_def)
qed

subsection \<open>Scheduling\<close>

lemma update_funpow: "(update ^^ k) s = s\<lparr>pending := pending s + k\<rparr>"
  by (induction k) (simp_all add: update_def)

lemma run_callbacks_funpow:
  fixes lib :: "'n::{plus,minus,zero,ord} mapbox"
  shows "fst (run_callbacks lib env k s) = ((\<lambda>t. state_of (update_callback lib env t)) ^^ k) s"
proof -
  define F where "F = (\<lambda>t. state_of (update_callback lib env t))"
  have "fst (run_callbacks lib env k s) = (F ^^ k) s"
  proof (induction k arbitrary: s)
    case 0
    show ?case by simp
  next
    case (Suc k)
    have unroll: "(F ^^ Suc k) s = (F ^^ k) (F s)"
      by (simp only: funpow_Suc_right o_apply)
    show ?case
    proof (cases "update_callback lib env s")
      case (Inl a)
      obtain e s' where a: "a = (e, s')" by (cases a)
      with Inl have "F s = s'" by (simp add: F_def)
      with Inl a Suc.IH [of s'] show ?thesis
        unfolding unroll by (simp add: case_prod_beta)
    next
      case (Inr s')
      then have "F s = s'" by (simp add: F_def)
      with Inr Suc.IH [of s'] show ?thesis
        unfolding unroll by simp
    qed
  qed
  then show ?thesis by (simp add: F_def)
qed

text \<open>
  C3, as the code has it: \<open>_update\<close> coalesces nothing. Each call only requests one more
  animation frame for its own callback and touches nothing else, so \<open>k\<close> calls before the
  frame leave \<open>k\<close> more callbacks pending, and the frame runs every pending callback, one
  after the other, each on the state the one before left.
\<close>

theorem update_requests_one_frame_each:
  fixes lib :: "'n::{plus,minus,zero,ord} mapbox"
  shows "(update ^^ k) s = s\<lparr>pending := pending s + k\<rparr>
     \<and> fst (animation_frame lib env ((update ^^ k) s))
         = ((\<lambda>t. state_of (update_callback lib env t)) ^^ (pending s + k)) (s\<lparr>pending := 0\<rparr>)"
  by (simp add: update_funpow animation_frame_def run_callbacks_funpow)

theorem update_requests_one_frame_each_witness:
  "pending ((update ^^ 2) (example_popup (LocArray [200, 380]))) = 2
   \<and> calls (fst (animation_frame example_lib example_env
                  ((update ^^ 2) (example_popup (LocArray [200, 380])))))
       = [MapOn 1 ''move'' H_update, MapOn 1 ''remove'' H_removeMap,
          PopupSetLngLat (LocArray [200, 380]), PopupUpdate,
          PopupUpdate, PopupUpdate]"
proof -
  let ?s = "example_popup (LocArray [200, 380])"
  have p0: "pending ?s = 0"
    by (simp add: example_popup_simp)
  from update_requests_one_frame_each [of 2 ?s example_lib example_env]
  have a: "(update ^^ 2) ?s = ?s\<lparr>pending := pending ?s + 2\<rparr>"
    by blast
  have "pending ((update ^^ 2) ?s) = 2"
    unfolding a by (simp add: p0)
  moreover have "calls (fst (animation_frame example_lib example_env ((update ^^ 2) ?s)))
       = [MapOn 1 ''move'' H_update, MapOn 1 ''remove'' H_removeMap,
          PopupSetLngLat (LocArray [200, 380]), PopupUpdate,
          PopupUpdate, PopupUpdate]"
    by code_simp
  ultimately show ?thesis by simp
qed

text \<open>
  Mounting and one prop update before the frame call \<open>_update\<close> twice and leave two
  callbacks pending, and the frame runs the recomputation twice: the first sets the
  coordinate and refreshes, the second forces a refresh and refreshes again.
\<close>

theorem update_not_coalesced_counterexample:
  "\<not> pending (componentDidUpdate (componentDidMount (example_popup (LocArray [200, 380])))) \<le> 1
   \<and> calls (fst (animation_frame example_lib example_env
                  (componentDidUpdate (componentDidMount (example_popup (LocArray [200, 380]))))))
       = [MapOn 1 ''move'' H_update, MapOn 1 ''remove'' H_removeMap,
          PopupSetLngLat (LocArray [200, 380]), PopupUpdate,
          PopupUpdate, PopupUpdate]"
  by code_simp

subsection \<open>The synchronize cycle\<close>











text \<open>
  C8, where the code fails: with a \<open>{lon, lat}\<close> object as \<open>location\<close>, which \<open>propTypes\<close>
  accepts, the callback passes the guard, merges the options, binds the surface, and then
  throws a TypeError in \<open>_isLocationChanged\<close>, before any call on the popup.
\<close>

theorem location_object_throws:
  "snd (animation_frame example_lib example_env (update (example_popup (LocObject 10 20))))
     = [TypeError]
   \<and> calls (fst (animation_frame example_lib example_env (update (example_popup (LocObject 10 20)))))
     = [MapOn 1 ''move'' H_update, MapOn 1 ''remove'' H_removeMap]"
  by code_simp

subsection \<open>Teardown\<close>

lemma removeMap_returns:
  "mbPopup s = Some p \<Longrightarrow>
   removeMap s = Inr (s\<lparr>calls := calls s @ (case popup_map p of None \<Rightarrow> [] | Some old \<Rightarrow> unsubscribe old),
                      mbPopup := Some (p\<lparr>popup_map := None\<rparr>)\<rparr>)"
  by (cases "popup_map p") (simp_all add: removeMap_def unsubscribe_def)

lemma update_callback_aborts:
  assumes "mbPopup s = None \<or> (\<exists>p. mbPopup s = Some p \<and> (popup_container p = None \<or> popup_content p = None))"
  shows "update_callback lib env s = Inr s"
  using assms by (auto simp: update_callback_def Let_def split: option.splits)

lemma run_callbacks_aborts:
  assumes "update_callback lib env s = Inr s"
  shows "run_callbacks lib env k s = (s, [])"
  using assms by (induction k) simp_all

lemma remove_popup_returns:
  "\<exists>s1. remove_popup s = Inr s1
     \<and> (mbPopup s1 = None \<or> (\<exists>p. mbPopup s1 = Some p \<and> popup_container p = None \<and> popup_content p = None \<and> popup_map p = None))
     \<and> pending s1 = pending s
     \<and> \<not> portal_attached s1
     \<and> (case portalNode s of None \<Rightarrow> True | Some n \<Rightarrow> parentNode s1 n = None)
     \<and> removals (calls s1) = removals (calls s) + (if portal_attached s then 1 else 0)"
proof (cases "mbPopup s")
  case None
  then show ?thesis
    by (auto simp: remove_popup_def portal_attached_def removals_def split: option.splits)
next
  case (Some p)
  then show ?thesis
    by (auto simp: remove_popup_def removeMap_returns portal_attached_def removals_def unsubscribe_def
        split: option.splits)
qed

lemma remove_popup_idem:
  assumes "remove_popup s = Inr s1"
  shows "remove_popup s1 = Inr s1"
proof (cases "mbPopup s")
  case None
  with assms show ?thesis
    by (auto simp: remove_popup_def split: option.splits)
next
  case (Some p)
  with assms show ?thesis
    by (auto simp: remove_popup_def removeMap_returns removeMap_def split: option.splits)
qed

text \<open>
  C6: \<open>componentWillUnmount\<close> returns from every state, and a second call right after
  returns too and changes nothing. After the first call the portal node is out of the
  document, and \<open>removeChild\<close> has been called once if the node was attached and not at
  all otherwise.
\<close>

theorem unmount_twice:
  "\<exists>s1. componentWillUnmount s = Inr s1
      \<and> componentWillUnmount s1 = Inr s1
      \<and> \<not> portal_attached s1
      \<and> (case portalNode s of None \<Rightarrow> True | Some n \<Rightarrow> parentNode s1 n = None)
      \<and> removals (calls s1) = removals (calls s) + (if portal_attached s then 1 else 0)"
  using remove_popup_returns [of s] remove_popup_idem [of s]
  unfolding componentWillUnmount_def by blast

theorem unmount_twice_witness:
  "\<exists>s1. componentWillUnmount (example_popup LocUndefined) = Inr s1
      \<and> componentWillUnmount s1 = Inr s1
      \<and> parentNode s1 7 = None
      \<and> removals (calls s1) = 1"
proof -
  let ?s = "example_popup LocUndefined"
  have pn: "portalNode ?s = Some 7" and pa: "portal_attached ?s" and r0: "removals (calls ?s) = 0"
    by (simp_all add: example_popup_simp portal_attached_def removals_def)
  from unmount_twice [of ?s] obtain s1 where
    "componentWillUnmount ?s = Inr s1" and "componentWillUnmount s1 = Inr s1"
    and "case portalNode ?s of None \<Rightarrow> True | Some n \<Rightarrow> parentNode s1 n = None"
    and "removals (calls s1) = removals (calls ?s) + (if portal_attached ?s then 1 else 0)"
    by blast
  then show ?thesis
    by (simp add: pn pa r0)
qed

text \<open>
  C7: the callbacks requested before the teardown stay pending through it, and each of
  them, run afterwards, returns at the guard and leaves the state as it is: the frame
  changes nothing but the count of pending callbacks, and throws nothing.
\<close>

theorem callback_after_unmount:
  fixes lib :: "'n::{plus,minus,zero,ord} mapbox"
  shows "\<exists>s1. componentWillUnmount ((update ^^ k) s) = Inr s1
      \<and> pending s1 = pending s + k
      \<and> update_callback lib env s1 = Inr s1
      \<and> animation_frame lib env s1 = (s1\<lparr>pending := 0\<rparr>, [])"
proof -
  from remove_popup_returns [of "(update ^^ k) s"] obtain s1 where
    r: "remove_popup ((update ^^ k) s) = Inr s1"
    and g: "mbPopup s1 = None \<or> (\<exists>p. mbPopup s1 = Some p \<and> popup_container p = None \<and> popup_content p = None \<and> popup_map p = None)"
    and pd: "pending s1 = pending ((update ^^ k) s)"
    by blast
  have pd': "pending s1 = pending s + k"
    using pd by (simp add: update_funpow)
  have cb: "update_callback lib env s1 = Inr s1"
    using g by (intro update_callback_aborts) auto
  have "update_callback lib env (s1\<lparr>pending := 0\<rparr>) = Inr (s1\<lparr>pending := 0\<rparr>)"
    using g by (intro update_callback_aborts) auto
  then have "animation_frame lib env s1 = (s1\<lparr>pending := 0\<rparr>, [])"
    unfolding animation_frame_def by (rule run_callbacks_aborts)
  with r pd' cb show ?thesis
    unfolding componentWillUnmount_def by blast
qed

theorem callback_after_unmount_witness:
  "\<exists>s1. componentWillUnmount ((update ^^ 3) (example_popup (LocArray [200, 380]))) = Inr s1
      \<and> pending s1 = 3
      \<and> animation_frame example_lib example_env s1 = (s1\<lparr>pending := 0\<rparr>, [])"
  using callback_after_unmount [of 3 "example_popup (LocArray [200, 380])" example_lib example_env]
  by (auto simp add: example_popup_simp)

section \<open>Properties of the table storage\<close>

lemma field_names_safe:
  "''filterText'' \<notin> unsafe_keys" "''pageIndex'' \<notin> unsafe_keys"
  "''sortKey'' \<notin> unsafe_keys" "''sortOrder'' \<notin> unsafe_keys"
  by (simp_all add: unsafe_keys_def)

lemma lodash_set_object:
  assumes "key \<notin> unsafe_keys" and "field \<notin> unsafe_keys"
  shows "lodash_set (Obj m) (key, field) v =
     Obj (m(key \<mapsto> Obj ((case m key of Some (Obj n) \<Rightarrow> n | _ \<Rightarrow> Map.empty)(field \<mapsto> v))))"
  using assms by (simp add: lodash_set_def split: option.splits jsval.splits)

lemma lodash_get_object:
  "m key = Some (Obj n) \<Longrightarrow> lodash_get (Obj m) (key, field) = (case n field of None \<Rightarrow> Undefined | Some v \<Rightarrow> v)"
  by (simp add: lodash_get_def)

lemma or_else_start:
  assumes "plain_or_absent v"
  shows "\<exists>m. or_else v (Obj Map.empty) = Obj m"
  using assms by (cases v) (simp_all add: plain_or_absent_def or_else_def)

text \<open>
  C10, as the code has it: when the key prefix is none of the keys that \<open>_.set\<close> refuses,
  and the storage holds under \<open>STORAGE_KEY\<close> an object or a falsy value or nothing, the
  getter applied after the setter returns the four written values, each falsy one as
  \<open>undefined\<close>.
\<close>

theorem table_state_round_trip:
  assumes "keyPrefix \<notin> unsafe_keys"
    and "plain_or_absent (storage_get storage STORAGE_KEY)"
  shows "tableStorageGetter STORAGE_KEY keyPrefix
           (fst (tableStorageSetter STORAGE_KEY keyPrefix storage ts))
       = \<lparr> filterText = or_else (filterText ts) Undefined,
           pageIndex = or_else (pageIndex ts) Undefined,
           sortKey = or_else (sortKey ts) Undefined,
           sortOrder = or_else (sortOrder ts) Undefined \<rparr>"
proof -
  from or_else_start [OF assms(2)] obtain m where
    d0: "or_else (storage_get storage STORAGE_KEY) (Obj Map.empty) = Obj m" by blast
  define n where "n = (case m keyPrefix of Some (Obj n) \<Rightarrow> n | _ \<Rightarrow> Map.empty)"
  define n4 where "n4 = n(''filterText'' \<mapsto> or_else (filterText ts) Undefined,
                          ''pageIndex'' \<mapsto> or_else (pageIndex ts) Undefined,
                          ''sortKey'' \<mapsto> or_else (sortKey ts) Undefined,
                          ''sortOrder'' \<mapsto> or_else (sortOrder ts) Undefined)"
  have written: "tableStorageSetter STORAGE_KEY keyPrefix storage ts
      = (storage(STORAGE_KEY \<mapsto> Obj (m(keyPrefix \<mapsto> Obj n4))), Obj (m(keyPrefix \<mapsto> Obj n4)))"
    using assms(1)
    by (simp add: tableStorageSetter_def d0 Let_def lodash_set_object field_names_safe n_def n4_def)
  have read: "or_else (storage_get (storage(STORAGE_KEY \<mapsto> Obj (m(keyPrefix \<mapsto> Obj n4)))) STORAGE_KEY) (Obj Map.empty)
      = Obj (m(keyPrefix \<mapsto> Obj n4))"
    by (simp add: storage_get_def or_else_def)
  show ?thesis
    unfolding written fst_conv tableStorageGetter_def read Let_def
    by (simp add: lodash_get_object n4_def)
qed

theorem table_state_round_trip_witness:
  "''hosts'' \<notin> unsafe_keys
   \<and> plain_or_absent (storage_get [''data'' \<mapsto> Obj [''hosts'' \<mapsto> Num 5]] ''data'')
   \<and> tableStorageGetter ''data'' ''hosts''
        (fst (tableStorageSetter ''data'' ''hosts'' [''data'' \<mapsto> Obj [''hosts'' \<mapsto> Num 5]]
               example_table_state))
       = \<lparr> filterText = Str ''cpu'', pageIndex = Undefined, sortKey = Str ''name'',
           sortOrder = Undefined \<rparr>"
proof -
  have h1: "''hosts'' \<notin> unsafe_keys"
    by (simp add: unsafe_keys_def)
  have h2: "plain_or_absent (storage_get [''data'' \<mapsto> Obj [''hosts'' \<mapsto> Num 5]] ''data'')"
    by (simp add: plain_or_absent_def storage_get_def)
  from table_state_round_trip [OF h1 h2, of example_table_state] h1 h2 show ?thesis
    by (simp add: example_table_state_def or_else_def)
qed

text \<open>
  The round trip fails when the storage holds a string under \<open>STORAGE_KEY\<close> (the setter
  writes nothing into it), and when the key prefix is \<open>constructor\<close>: the written filter
  text comes back as \<open>undefined\<close>.
\<close>

theorem table_state_round_trip_counterexample:
  "filterText (tableStorageGetter ''data'' ''hosts''
      (fst (tableStorageSetter ''data'' ''hosts'' [''data'' \<mapsto> Str ''x''] example_table_state)))
     \<noteq> or_else (filterText example_table_state) Undefined
   \<and> filterText (tableStorageGetter ''data'' ''constructor''
        (fst (tableStorageSetter ''data'' ''constructor'' Map.empty example_table_state)))
     \<noteq> or_else (filterText example_table_state) Undefined"
  by (simp add: example_table_state_def tableStorageGetter_def tableStorageSetter_def
      storage_get_def or_else_def lodash_get_def lodash_set_def unsafe_keys_def Let_def)

end
